theory Spec2Isabelle
  imports Main "HOL-Library.Multiset"
begin

section \<open>Strings, time and library functions\<close>

text \<open>
  Go strings are byte sequences and \<open>len\<close> counts bytes; they are modelled as
  \<open>string\<close> (a list of 8-bit characters). An \<open>error\<close> value is modelled by the text
  its \<open>Error()\<close> method returns, and a Go result pair \<open>(v, err)\<close> as
  \<open>'a \<times> string option\<close> where \<open>None\<close> is \<open>nil\<close>.
\<close>

type_synonym err = "string option"

text \<open>\<open>strings.HasPrefix(s, prefix)\<close>: \<open>len(s) >= len(prefix) && s[:len(prefix)] == prefix\<close>.\<close>

definition HasPrefix :: "string \<Rightarrow> string \<Rightarrow> bool" where
  "HasPrefix s p = (length p \<le> length s \<and> take (length p) s = p)"

text \<open>
  A \<open>time.Time\<close> is modelled as the number of nanoseconds since Go's zero time, a
  \<open>time.Duration\<close> as a number of nanoseconds. \<open>t.After(u)\<close> is \<open>u < t\<close>,
  \<open>t.Add(d)\<close> is \<open>t + d\<close> and \<open>t.IsZero()\<close> is \<open>t = 0\<close>.
\<close>

type_synonym time = int
type_synonym duration = int

definition Second :: duration where "Second = 1000000000"
definition Minute :: duration where "Minute = 60 * Second"

definition envValidity :: duration where "envValidity = 5 * Minute"
definition volumeValidity :: duration where "volumeValidity = 1 * Minute"

definition devDir :: string where "devDir = ''/dev''"
definition netDir :: string where "netDir = ''/sys/class/net''"


section \<open>The exporter and its environment cache\<close>

text \<open>
  The logger is modelled as the list of events printed so far; the formatting of a log
  line is not modelled, one constructor stands for each \<open>Println\<close>/\<open>Printf\<close> call
  of the source.
\<close>

datatype log_event =
    LogReadingEnvironment
  | LogHostname string err
  | LogFailedIostat string
  | LogFailedGetsysinfo string
  | LogFoundDevices "string list"
  | LogError string

record status =
  MetricCount :: int
  LastFetch :: time
  Devices :: "string list"
  Interfaces :: "string list"

typedecl volumeInfo

text \<open>
  \<open>promExporter\<close>. The fields \<open>upsState\<close> and \<open>fns\<close> are left out: the UPS client is
  not used by the functions modelled here, and the producers are passed to the
  collection model by their outcomes.
\<close>

record exporter =
  logger :: "log_event list"
  status :: "status option"
  hostname :: string
  pingTarget :: string
  getsysinfo :: string
  syshdnum :: int
  sysfannum :: int
  ifaces :: "string list"
  iostat :: string
  devices :: "string list"
  envExpiry :: time
  volumes :: "volumeInfo list"
  volumeExpiry :: time

text \<open>An entry of \<open>ioutil.ReadDir\<close>: its \<open>Name()\<close> and \<open>IsDir()\<close>.\<close>

record dirent =
  Name :: string
  IsDir :: bool

text \<open>
  What the host answers during one discovery pass: the environment variables, the
  subprocesses run by \<open>utils.ExecCommand\<close>, \<open>exec.LookPath\<close>, \<open>strconv.Atoi\<close> and
  \<open>ioutil.ReadDir\<close>. \<open>readSysVolInfo\<close> is not part of the sources at hand; it is taken
  as a parameter that acts on the volume cache (\<open>volumes\<close>, \<open>volumeExpiry\<close>).
\<close>

record world =
  Getenv :: "string \<Rightarrow> string"
  ExecCommand :: "string \<Rightarrow> string list \<Rightarrow> string \<times> err"
  LookPath :: "string \<Rightarrow> string \<times> err"
  Atoi :: "string \<Rightarrow> int \<times> err"
  ReadDir :: "string \<Rightarrow> dirent list \<times> err"
  SysVolInfo :: "volumeInfo list \<times> time \<Rightarrow> volumeInfo list \<times> time"

text \<open>The loop over the entries of \<open>netDir\<close> (lines 197-204), \<open>acc\<close> is \<open>e.ifaces\<close>.\<close>

fun scan_ifaces :: "dirent list \<Rightarrow> string list \<Rightarrow> string list" where
  "scan_ifaces [] acc = acc"
| "scan_ifaces (d # ds) acc =
     (let iface = Name d in
      if \<not> HasPrefix iface ''eth'' then scan_ifaces ds acc
      else scan_ifaces ds (acc @ [iface]))"

text \<open>The loop over the entries of \<open>devDir\<close> (lines 208-221), \<open>acc\<close> is \<open>e.devices\<close>.\<close>

fun scan_devices :: "dirent list \<Rightarrow> string list \<Rightarrow> string list" where
  "scan_devices [] acc = acc"
| "scan_devices (d # ds) acc =
     (let dev = Name d in
      if IsDir d \<or> \<not> HasPrefix dev ''nvme'' \<and> \<not> HasPrefix dev ''sd'' then scan_devices ds acc
      else if HasPrefix dev ''nvme'' \<and> length dev \<noteq> 7 then scan_devices ds acc
      else if HasPrefix dev ''sd'' \<and> length dev \<noteq> 3 then scan_devices ds acc
      else scan_devices ds (acc @ [dev]))"

definition readSysVolInfo :: "world \<Rightarrow> exporter \<Rightarrow> exporter" where
  "readSysVolInfo wd e =
     (let (vs, ex) = SysVolInfo wd (volumes e, volumeExpiry e)
      in e\<lparr>volumes := vs, volumeExpiry := ex\<rparr>)"

text \<open>Lines 159-163: the hostname; the result carries the local variable \<open>err\<close>.\<close>

definition env_hostname :: "world \<Rightarrow> exporter \<Rightarrow> exporter \<times> err" where
  "env_hostname wd e =
     (let e1 = e\<lparr>hostname := Getenv wd ''HOSTNAME''\<rparr>;
          (e2, er) = (if hostname e1 = []
                      then (let (out, x) = ExecCommand wd ''hostname'' [] in (e1\<lparr>hostname := out\<rparr>, x))
                      else (e1, None))
      in (e2\<lparr>logger := logger e2 @ [LogHostname (hostname e2) er]\<rparr>, er))"

text \<open>
  Lines 165-176: the tool paths. The lookup of \<open>getsysinfo\<close> drops its own error, so
  the test after it reads the \<open>err\<close> left by the statements before.
\<close>

definition env_tools :: "world \<Rightarrow> exporter \<times> err \<Rightarrow> exporter" where
  "env_tools wd p =
     (let (e, er0) = p;
          (e1, er1) = (if iostat e = []
                       then (let (path, x) = LookPath wd ''iostat'';
                                 e' = e\<lparr>iostat := path\<rparr>
                             in (case x of None \<Rightarrow> (e', x)
                                 | Some msg \<Rightarrow> (e'\<lparr>logger := logger e' @ [LogFailedIostat msg]\<rparr>, x)))
                       else (e, er0))
      in (if getsysinfo e1 = []
          then (let e' = e1\<lparr>getsysinfo := fst (LookPath wd ''getsysinfo'')\<rparr>
                in (case er1 of None \<Rightarrow> e'
                    | Some msg \<Rightarrow> e'\<lparr>logger := logger e' @ [LogFailedGetsysinfo msg]\<rparr>))
          else e1))"

text \<open>Lines 177-193: the sensor counts, \<open>-1\<close> when the tool fails.\<close>

definition env_sysinfo :: "world \<Rightarrow> exporter \<Rightarrow> exporter" where
  "env_sysinfo wd e =
     (if getsysinfo e \<noteq> []
      then (let (hdnumOutput, er) = ExecCommand wd (getsysinfo e) [''hdnum''];
                e1 = (if er = None then e\<lparr>syshdnum := fst (Atoi wd hdnumOutput)\<rparr>
                      else e\<lparr>syshdnum := - 1\<rparr>);
                (sysfannumOutput, er') = ExecCommand wd (getsysinfo e1) [''sysfannum''];
                e2 = (if er' = None then e1\<lparr>sysfannum := fst (Atoi wd sysfannumOutput)\<rparr>
                      else e1\<lparr>sysfannum := - 1\<rparr>)
            in readSysVolInfo wd e2)
      else e)"

text \<open>Lines 195-229: the directory scans, the expiry and the status.\<close>

definition env_scan :: "world \<Rightarrow> exporter \<Rightarrow> exporter" where
  "env_scan wd e =
     (let e1 = e\<lparr>ifaces := scan_ifaces (fst (ReadDir wd netDir)) []\<rparr>;
          e2 = e1\<lparr>devices := scan_devices (fst (ReadDir wd devDir)) []\<rparr>;
          e3 = e2\<lparr>logger := logger e2 @ [LogFoundDevices (devices e2)]\<rparr>;
          e4 = e3\<lparr>envExpiry := envExpiry e3 + envValidity\<rparr>
      in (case status e4 of None \<Rightarrow> e4
          | Some st \<Rightarrow> e4\<lparr>status := Some (st\<lparr>Devices := devices e4, Interfaces := ifaces e4\<rparr>)\<rparr>))"

definition readEnvironment :: "world \<Rightarrow> exporter \<Rightarrow> exporter" where
  "readEnvironment wd e =
     env_scan wd (env_sysinfo wd (env_tools wd
       (env_hostname wd (e\<lparr>logger := logger e @ [LogReadingEnvironment]\<rparr>))))"

text \<open>
  Lines 96-98 of \<open>WriteMetrics\<close>: \<open>now\<close> is the value of \<open>time.Now()\<close> read by
  the test.
\<close>

definition ensureFresh :: "time \<Rightarrow> world \<Rightarrow> exporter \<Rightarrow> exporter" where
  "ensureFresh now wd e = (if envExpiry e < now then readEnvironment wd e else e)"


text \<open>A host with no tools and a given content of the two directories, and a fresh exporter.\<close>

definition host0 :: "dirent list \<Rightarrow> world" where
  "host0 ds = \<lparr>Getenv = (\<lambda>n. if n = ''HOSTNAME'' then ''nas'' else []),
      ExecCommand = (\<lambda>c a. ([], Some ''not found'')),
      LookPath = (\<lambda>c. ([], Some ''not found'')),
      Atoi = (\<lambda>s. (0, Some ''invalid syntax'')),
      ReadDir = (\<lambda>d. (ds, None)),
      SysVolInfo = (\<lambda>p. p)\<rparr>"

definition exporter0 :: "time \<Rightarrow> exporter" where
  "exporter0 t = \<lparr>logger = [], status = None, hostname = [], pingTarget = [], getsysinfo = [],
      syshdnum = 0, sysfannum = 0, ifaces = [], iostat = [], devices = [], envExpiry = t,
      volumes = [], volumeExpiry = t\<rparr>"

text \<open>
  The entries a device scan keeps: plain entries named \<open>nvme\<close> with seven
  characters in all, or \<open>sd\<close> with three.
\<close>

definition qualifying_device :: "dirent \<Rightarrow> bool" where
  "qualifying_device d =
     (\<not> IsDir d \<and> (HasPrefix (Name d) ''nvme'' \<and> length (Name d) = 7
                  \<or> HasPrefix (Name d) ''sd'' \<and> length (Name d) = 3))"

definition plain_file :: "string \<Rightarrow> dirent" where
  "plain_file n = \<lparr>Name = n, IsDir = False\<rparr>"

definition dir_entries :: "dirent list" where
  "dir_entries = map plain_file [''nvme0n1'', ''nvme0n1p1'', ''sda'', ''sdaa'', ''eth0'', ''lo'']"

section \<open>Metrics, the network counters and the renderer\<close>

text \<open>
  The struct \<open>metric\<close>, by the fields the sources use. A \<open>float64\<close> is not
  interpreted: it is a value of a type parameter \<open>'v\<close>, and what the Go library does
  with it is a parameter of the model.
\<close>

record 'v metric =
  m_name :: string
  m_attr :: string
  m_value :: 'v
  m_help :: string
  m_metricType :: string
  m_timestamp :: time

text \<open>
  The library functions the producers and the renderer call: the verbs \<open>%q\<close> and
  \<open>%g\<close> of \<open>fmt\<close>, \<open>strconv.ParseFloat\<close>, \<open>path.Join\<close>, \<open>utils.ReadFile\<close>, the
  \<open>float64\<close> zero of the struct literal \<open>metric{}\<close>, and the \<open>float64\<close> product
  \<open>x * 1000\<close>.
\<close>

record 'v lib =
  fmt_q :: "string \<Rightarrow> string"
  fmt_g :: "'v \<Rightarrow> string"
  ParseFloat :: "string \<Rightarrow> 'v \<times> err"
  path_Join :: "string list \<Rightarrow> string"
  ReadFile :: "string \<Rightarrow> string \<times> err"
  float_zero :: 'v
  times_1000 :: "'v \<Rightarrow> 'v"

definition metric_zero :: "'v lib \<Rightarrow> 'v metric" where
  "metric_zero L = \<lparr>m_name = [], m_attr = [], m_value = float_zero L, m_help = [],
     m_metricType = [], m_timestamp = 0\<rparr>"

definition getNetworkStatMetric ::
  "'v lib \<Rightarrow> string \<Rightarrow> string \<Rightarrow> string \<Rightarrow> string \<Rightarrow> 'v metric \<times> err" where
  "getNetworkStatMetric L nm hlp iface direction =
     (let (str, er) = ReadFile L (path_Join L [netDir, iface, ''statistics'', direction @ ''_bytes''])
      in case er of
           Some x \<Rightarrow> (metric_zero L, Some x)
         | None \<Rightarrow>
             (let (v, er') = ParseFloat L str
              in case er' of
                   Some x \<Rightarrow> (metric_zero L, Some x)
                 | None \<Rightarrow>
                     (\<lparr>m_name = nm, m_attr = ''device='' @ fmt_q L iface, m_value = v,
                       m_help = hlp, m_metricType = ''counter'', m_timestamp = 0\<rparr>, None)))"

text \<open>
  The loop of \<open>getNetworkStatsMetrics\<close> over \<open>e.ifaces\<close>; \<open>metrics\<close> is the slice
  built so far. A \<open>nil\<close> slice is the empty list.
\<close>

fun network_stats_loop :: "'v lib \<Rightarrow> string list \<Rightarrow> 'v metric list \<Rightarrow> 'v metric list \<times> err" where
  "network_stats_loop L [] metrics = (metrics, None)"
| "network_stats_loop L (iface # rest) metrics =
     (let (rxMetric, er) = getNetworkStatMetric L ''node_network_receive_bytes_total''
                             ''Total number of bytes received'' iface ''rx''
      in case er of
           Some x \<Rightarrow> ([], Some x)
         | None \<Rightarrow>
             (let metrics1 = metrics @ [rxMetric];
                  (txMetric, er') = getNetworkStatMetric L ''node_network_transmit_bytes_total''
                                      ''Total number of bytes transmitted'' iface ''tx''
              in case er' of
                   Some x \<Rightarrow> ([], Some x)
                 | None \<Rightarrow> network_stats_loop L rest (metrics1 @ [txMetric])))"

definition getNetworkStatsMetrics :: "'v lib \<Rightarrow> exporter \<Rightarrow> 'v metric list \<times> err" where
  "getNetworkStatsMetrics L e = network_stats_loop L (ifaces e) []"

text \<open>
  The error met when the byte counter of an interface is read and parsed, if any: the
  error of the read, else that of the parse.
\<close>

definition counter_error :: "'v lib \<Rightarrow> string \<Rightarrow> string \<Rightarrow> err" where
  "counter_error L iface direction =
     (let (str, er) = ReadFile L (path_Join L [netDir, iface, ''statistics'', direction @ ''_bytes''])
      in case er of Some x \<Rightarrow> Some x | None \<Rightarrow> snd (ParseFloat L str))"

definition iface_fails :: "'v lib \<Rightarrow> string \<Rightarrow> bool" where
  "iface_fails L iface = (counter_error L iface ''rx'' \<noteq> None \<or> counter_error L iface ''tx'' \<noteq> None)"

text \<open>
  An \<open>io.Writer\<close>: \<open>Write\<close> takes the sink and the bytes and gives the sink after the
  call and the error. \<open>fmt.Fprintf\<close> and \<open>fmt.Fprintln\<close> format into a buffer and call
  \<open>Write\<close> once.
\<close>

type_synonym 'w writer = "'w \<Rightarrow> string \<Rightarrow> 'w \<times> err"

definition Fprint :: "'w writer \<Rightarrow> 'w \<Rightarrow> string \<Rightarrow> 'w \<times> err" where
  "Fprint wr w s = wr w s"

definition Fprintln :: "'w writer \<Rightarrow> 'w \<Rightarrow> string \<Rightarrow> 'w \<times> err" where
  "Fprintln wr w s = wr w (s @ ''\<newline>'')"

definition writeMetricMetadata :: "'w writer \<Rightarrow> 'w \<Rightarrow> 'v metric \<Rightarrow> 'w" where
  "writeMetricMetadata wr w m =
     (let w1 = (if m_help m \<noteq> [] then fst (Fprintln wr w (''# HELP '' @ m_name m @ '' '' @ m_help m))
                else w)
      in (if m_metricType m \<noteq> []
          then fst (Fprintln wr w1 (''# TYPE '' @ m_name m @ '' '' @ m_metricType m))
          else w1))"

definition getMetricFullName :: "'v lib \<Rightarrow> exporter \<Rightarrow> 'v metric \<Rightarrow> string" where
  "getMetricFullName L e m =
     (if m_attr m \<noteq> []
      then m_name m @ ''{node='' @ fmt_q L (hostname e) @ '','' @ m_attr m @ ''}''
      else m_name m @ ''{node='' @ fmt_q L (hostname e) @ ''}'')"

text \<open>
  The body of the loop over a metric batch in \<open>WriteMetrics\<close> (lines 122-123), and the
  loop. The results of \<open>Fprintf\<close> are dropped.
\<close>

definition write_metric :: "'v lib \<Rightarrow> 'w writer \<Rightarrow> exporter \<Rightarrow> 'w \<Rightarrow> 'v metric \<Rightarrow> 'w" where
  "write_metric L wr e w m =
     (let w1 = writeMetricMetadata wr w m
      in fst (Fprint wr w1 (getMetricFullName L e m @ '' '' @ fmt_g L (m_value m) @ ''\<newline>'')))"

fun write_metrics :: "'v lib \<Rightarrow> 'w writer \<Rightarrow> exporter \<Rightarrow> 'w \<Rightarrow> 'v metric list \<Rightarrow> 'w" where
  "write_metrics L wr e w [] = w"
| "write_metrics L wr e w (m # ms) = write_metrics L wr e (write_metric L wr e w m) ms"

text \<open>A sequence of \<open>Write\<close> calls, each result dropped.\<close>

definition write_all :: "'w writer \<Rightarrow> 'w \<Rightarrow> string list \<Rightarrow> 'w" where
  "write_all wr w chunks = foldl (\<lambda>w s. fst (wr w s)) w chunks"

text \<open>A sink that keeps every \<open>Write\<close> call's bytes, in order, and never fails.\<close>

definition line_writer :: "string list writer" where
  "line_writer w s = (w @ [s], None)"

text \<open>
  The lines the exposition format asks for one metric: the \<open>HELP\<close> line when the help
  is not empty, the \<open>TYPE\<close> line when the type is not empty, the value line.
\<close>

definition value_line :: "'v lib \<Rightarrow> string \<Rightarrow> 'v metric \<Rightarrow> string" where
  "value_line L host m =
     m_name m @ ''{node='' @ fmt_q L host @ (if m_attr m = [] then [] else '','' @ m_attr m) @ ''}''
       @ '' '' @ fmt_g L (m_value m) @ ''\<newline>''"

definition metric_lines :: "'v lib \<Rightarrow> string \<Rightarrow> 'v metric \<Rightarrow> string list" where
  "metric_lines L host m =
     (if m_help m = [] then [] else [''# HELP '' @ m_name m @ '' '' @ m_help m @ ''\<newline>''])
     @ (if m_metricType m = [] then [] else [''# TYPE '' @ m_name m @ '' '' @ m_metricType m @ ''\<newline>''])
     @ [value_line L host m]"

text \<open>A library over integer values for the examples: \<open>%q\<close> puts the text in quotes.\<close>

definition show_digit :: "nat \<Rightarrow> char" where
  "show_digit d = ''0123456789'' ! d"

function show_nat :: "nat \<Rightarrow> string" where
  "show_nat n = (if n < 10 then [show_digit n] else show_nat (n div 10) @ [show_digit (n mod 10)])"
  by pat_completeness auto
termination
  by (relation "measure id") auto

declare show_nat.simps [simp del]

definition lib0 :: "(string \<Rightarrow> string \<times> err) \<Rightarrow> nat lib" where
  "lib0 rd = \<lparr>fmt_q = (\<lambda>s. ''\"'' @ s @ ''\"''), fmt_g = show_nat,
     ParseFloat = (\<lambda>s. if s = ''10'' then (10, None) else if s = ''20'' then (20, None)
                        else (0, Some ''invalid syntax'')),
     path_Join = (\<lambda>ps. foldr (\<lambda>p r. if r = [] then p else p @ ''/'' @ r) ps []),
     ReadFile = rd, float_zero = 0, times_1000 = (\<lambda>v. v * 1000)\<rparr>"

text \<open>A host where \<open>eth0\<close> has both byte counters and \<open>eth1\<close> lacks \<open>tx_bytes\<close>.\<close>

definition files0 :: "string \<Rightarrow> string \<times> err" where
  "files0 p = (if p = ''/sys/class/net/eth0/statistics/rx_bytes'' then (''10'', None)
     else if p = ''/sys/class/net/eth0/statistics/tx_bytes'' then (''20'', None)
     else if p = ''/sys/class/net/eth1/statistics/rx_bytes'' then (''10'', None)
     else ([], Some ''no such file''))"

text \<open>Two samples of one gauge, both carrying help and type, and a bare metric.\<close>

definition gauge0 :: "string \<Rightarrow> nat \<Rightarrow> nat metric" where
  "gauge0 at v = \<lparr>m_name = ''up'', m_attr = at, m_value = v, m_help = ''Up'',
     m_metricType = ''gauge'', m_timestamp = 0\<rparr>"

definition bare0 :: "nat metric" where
  "bare0 = \<lparr>m_name = ''x'', m_attr = [], m_value = 3, m_help = [], m_metricType = [],
     m_timestamp = 0\<rparr>"

definition nas0 :: exporter where
  "nas0 = (exporter0 0)\<lparr>hostname := ''nas''\<rparr>"

section \<open>The bandwidth producer\<close>

















section \<open>Properties of the environment cache\<close>

lemma scan_ifaces_acc:
  "scan_ifaces ds acc = acc @ filter (\<lambda>n. HasPrefix n ''eth'') (map Name ds)"
  by (induction ds arbitrary: acc) (simp_all add: Let_def)

lemma nvme_not_sd: "HasPrefix s ''nvme'' \<Longrightarrow> \<not> HasPrefix s ''sd''"
  by (cases s) (auto simp: HasPrefix_def)

lemma scan_devices_acc:
  "scan_devices ds acc = acc @ map Name (filter qualifying_device ds)"
proof (induction ds arbitrary: acc)
  case Nil
  show ?case by simp
next
  case (Cons d ds)
  show ?case
    using nvme_not_sd [of "Name d"]
    by (auto simp add: Let_def Cons.IH qualifying_device_def)
qed

lemma envExpiry_env_scan: "envExpiry (env_scan wd e) = envExpiry e + envValidity"
  by (simp add: env_scan_def Let_def split: option.splits)

lemma envExpiry_env_sysinfo: "envExpiry (env_sysinfo wd e) = envExpiry e"
  by (simp add: env_sysinfo_def readSysVolInfo_def Let_def split: prod.splits)

lemma envExpiry_env_tools: "envExpiry (env_tools wd (e, er)) = envExpiry e"
  by (simp add: env_tools_def Let_def split: prod.splits option.splits)

lemma envExpiry_env_hostname: "envExpiry (fst (env_hostname wd e)) = envExpiry e"
  by (simp add: env_hostname_def Let_def split: prod.splits)

lemma envExpiry_readEnvironment:
  "envExpiry (readEnvironment wd e) = envExpiry e + envValidity"
proof -
  obtain e1 er where h: "env_hostname wd (e\<lparr>logger := logger e @ [LogReadingEnvironment]\<rparr>) = (e1, er)"
    by (cases "env_hostname wd (e\<lparr>logger := logger e @ [LogReadingEnvironment]\<rparr>)")
  have "envExpiry e1 = envExpiry e"
    using envExpiry_env_hostname [of wd "e\<lparr>logger := logger e @ [LogReadingEnvironment]\<rparr>"] h
    by simp
  then show ?thesis
    by (simp add: readEnvironment_def h envExpiry_env_scan envExpiry_env_sysinfo
        envExpiry_env_tools)
qed






lemma devices_env_scan:
  "devices (env_scan wd e) = scan_devices (fst (ReadDir wd devDir)) []"
  by (simp add: env_scan_def Let_def split: option.splits)

lemma ifaces_env_scan:
  "ifaces (env_scan wd e) = scan_ifaces (fst (ReadDir wd netDir)) []"
  by (simp add: env_scan_def Let_def split: option.splits)

text \<open>
  Claim C5, as amended. A discovery pass keeps, in directory order, exactly the entries
  of the device directory that are not directories and whose name starts with \<open>nvme\<close>
  and has length 7 or starts with \<open>sd\<close> and has length 3, and exactly the entries of
  the network directory whose name starts with \<open>eth\<close>.
\<close>

theorem discovery_filter:
  "devices (readEnvironment wd e) = map Name (filter qualifying_device (fst (ReadDir wd devDir)))
   \<and> ifaces (readEnvironment wd e) =
       filter (\<lambda>n. HasPrefix n ''eth'') (map Name (fst (ReadDir wd netDir)))"
  by (simp add: readEnvironment_def devices_env_scan ifaces_env_scan scan_devices_acc
      scan_ifaces_acc)

text \<open>
  For the plain entries \<open>nvme0n1\<close>, \<open>nvme0n1p1\<close>, \<open>sda\<close>, \<open>sdaa\<close>, \<open>eth0\<close>, \<open>lo\<close>
  the devices are \<open>nvme0n1\<close> and \<open>sda\<close>, the interfaces \<open>eth0\<close>.
\<close>

theorem discovery_filter_witness:
  "devices (readEnvironment (host0 dir_entries) (exporter0 0)) = [''nvme0n1'', ''sda'']
   \<and> ifaces (readEnvironment (host0 dir_entries) (exporter0 0)) = [''eth0'']"
  using discovery_filter [of "host0 dir_entries" "exporter0 0"]
  by (simp add: host0_def dir_entries_def plain_file_def qualifying_device_def HasPrefix_def)

text \<open>
  Claim C5 as stated fails on an entry that is a directory: a directory named \<open>sda\<close>
  starts with \<open>sd\<close> and has length 3, and the scan (line 210) drops it.
\<close>

theorem discovery_filter_counterexample:
  "HasPrefix ''sda'' ''sd'' \<and> length ''sda'' = 3
   \<and> ''sda'' \<notin> set (devices (readEnvironment (host0 [\<lparr>Name = ''sda'', IsDir = True\<rparr>]) (exporter0 0)))"
  by (simp add: readEnvironment_def devices_env_scan host0_def HasPrefix_def)

text \<open>
  Claim C1, as amended. A request that observes an expired cache at \<open>now\<close> leaves the
  expiry at the previously stored expiry plus the 5-minute validity (line 224), whatever
  \<open>now\<close> is.
\<close>

theorem refresh_expiry:
  assumes "envExpiry e < now"
  shows "envExpiry (ensureFresh now wd e) = envExpiry e + envValidity"
  using assms by (simp add: ensureFresh_def envExpiry_readEnvironment)

text \<open>A request at 301 s on an expiry of 300 s leaves the expiry at 600 s.\<close>

theorem refresh_expiry_witness:
  "envExpiry (ensureFresh (301 * Second) (host0 []) (exporter0 (300 * Second))) = 600 * Second"
  using refresh_expiry [of "exporter0 (300 * Second)" "301 * Second" "host0 []"]
  by (simp add: exporter0_def Second_def envValidity_def Minute_def)

text \<open>
  Claim C1 as stated fails there: the new expiry is not the request time plus the
  validity, 601 s.
\<close>

theorem refresh_expiry_counterexample:
  "envExpiry (exporter0 (300 * Second)) < 301 * Second
   \<and> envExpiry (ensureFresh (301 * Second) (host0 []) (exporter0 (300 * Second)))
       \<noteq> 301 * Second + envValidity"
  by (simp add: ensureFresh_def envExpiry_readEnvironment exporter0_def Second_def
      envValidity_def Minute_def)




section \<open>Properties of the network counters\<close>

lemma getNetworkStatMetric_err:
  "snd (getNetworkStatMetric L nm hlp iface direction) = counter_error L iface direction"
  by (simp add: getNetworkStatMetric_def counter_error_def Let_def split: prod.splits option.splits)

lemma network_stats_loop_step:
  "network_stats_loop L (i # is) acc =
     (case counter_error L i ''rx'' of
        Some x \<Rightarrow> ([], Some x)
      | None \<Rightarrow>
          (case counter_error L i ''tx'' of
             Some x \<Rightarrow> ([], Some x)
           | None \<Rightarrow> network_stats_loop L is
               (acc @ [fst (getNetworkStatMetric L ''node_network_receive_bytes_total''
                              ''Total number of bytes received'' i ''rx''),
                       fst (getNetworkStatMetric L ''node_network_transmit_bytes_total''
                              ''Total number of bytes transmitted'' i ''tx'')])))"
proof -
  obtain rx er where rx: "getNetworkStatMetric L ''node_network_receive_bytes_total''
      ''Total number of bytes received'' i ''rx'' = (rx, er)"
    by (rule prod.exhaust)
  obtain tx er' where tx: "getNetworkStatMetric L ''node_network_transmit_bytes_total''
      ''Total number of bytes transmitted'' i ''tx'' = (tx, er')"
    by (rule prod.exhaust)
  have a: "counter_error L i ''rx'' = er"
    using getNetworkStatMetric_err [of L _ _ i "''rx''"] rx by (metis snd_conv)
  have b: "counter_error L i ''tx'' = er'"
    using getNetworkStatMetric_err [of L _ _ i "''tx''"] tx by (metis snd_conv)
  show ?thesis
    by (simp add: rx tx a b split: option.splits)
qed

lemma network_stats_loop_fail:
  "\<exists>iface\<in>set is. iface_fails L iface \<Longrightarrow>
   fst (network_stats_loop L is acc) = [] \<and> snd (network_stats_loop L is acc) \<noteq> None"
proof (induction "is" arbitrary: acc)
  case Nil
  then show ?case by simp
next
  case (Cons i "is")
  show ?case
  proof (cases "iface_fails L i")
    case True
    then show ?thesis
      unfolding network_stats_loop_step
      by (auto simp add: iface_fails_def split: option.splits)
  next
    case False
    with Cons.prems have "\<exists>iface\<in>set is. iface_fails L iface" by simp
    from Cons.IH [OF this] False show ?thesis
      unfolding network_stats_loop_step
      by (simp add: iface_fails_def split: option.splits)
  qed
qed

lemma network_stats_loop_ok:
  "\<forall>iface\<in>set is. \<not> iface_fails L iface \<Longrightarrow>
   snd (network_stats_loop L is acc) = None \<and>
   length (fst (network_stats_loop L is acc)) = length acc + 2 * length is"
proof (induction "is" arbitrary: acc)
  case Nil
  then show ?case by simp
next
  case (Cons i "is")
  from Cons.prems have a: "counter_error L i ''rx'' = None" "counter_error L i ''tx'' = None"
    and b: "\<forall>iface\<in>set is. \<not> iface_fails L iface"
    by (simp_all add: iface_fails_def)
  show ?case
    unfolding network_stats_loop_step
    using Cons.IH [OF b] by (simp add: a)
qed

text \<open>
  Claim C10. One pass of the network-stats producer is all or nothing: when reading or
  parsing the \<open>rx\<close> or \<open>tx\<close> byte counter of some interface fails, the producer
  returns an error and no metric, whatever the interfaces before it gave; otherwise it
  returns no error and two metrics for each interface.
\<close>

theorem network_stats_all_or_nothing:
  "(if \<exists>iface\<in>set (ifaces e). iface_fails L iface
    then fst (getNetworkStatsMetrics L e) = [] \<and> snd (getNetworkStatsMetrics L e) \<noteq> None
    else snd (getNetworkStatsMetrics L e) = None
         \<and> length (fst (getNetworkStatsMetrics L e)) = 2 * length (ifaces e))"
  using network_stats_loop_fail [of "ifaces e" L "[]"] network_stats_loop_ok [of "ifaces e" L "[]"]
  by (simp add: getNetworkStatsMetrics_def)

lemma files0_fails: "iface_fails (lib0 files0) ''eth1''" "\<not> iface_fails (lib0 files0) ''eth0''"
  by (simp_all add: iface_fails_def counter_error_def lib0_def files0_def netDir_def)

text \<open>
  With the counters of \<open>eth0\<close> readable and the \<open>tx\<close> counter of \<open>eth1\<close> missing, the
  two metrics of \<open>eth0\<close> and the \<open>rx\<close> metric of \<open>eth1\<close> are dropped.
\<close>

theorem network_stats_all_or_nothing_witness:
  "\<not> iface_fails (lib0 files0) ''eth0'' \<and> iface_fails (lib0 files0) ''eth1''
   \<and> getNetworkStatsMetrics (lib0 files0) ((exporter0 0)\<lparr>ifaces := [''eth0'', ''eth1'']\<rparr>)
       = ([], Some ''no such file'')
   \<and> fst (getNetworkStatsMetrics (lib0 files0) ((exporter0 0)\<lparr>ifaces := [''eth0'', ''eth1'']\<rparr>)) = []
   \<and> snd (getNetworkStatsMetrics (lib0 files0) ((exporter0 0)\<lparr>ifaces := [''eth0'', ''eth1'']\<rparr>)) \<noteq> None"
proof -
  have a: "\<exists>iface\<in>set (ifaces ((exporter0 0)\<lparr>ifaces := [''eth0'', ''eth1'']\<rparr>)). iface_fails (lib0 files0) iface"
    using files0_fails by simp
  have b: "getNetworkStatsMetrics (lib0 files0) ((exporter0 0)\<lparr>ifaces := [''eth0'', ''eth1'']\<rparr>)
       = ([], Some ''no such file'')"
    by (simp add: getNetworkStatsMetrics_def getNetworkStatMetric_def lib0_def files0_def netDir_def)
  have c: "fst (getNetworkStatsMetrics (lib0 files0) ((exporter0 0)\<lparr>ifaces := [''eth0'', ''eth1'']\<rparr>)) = []
     \<and> snd (getNetworkStatsMetrics (lib0 files0) ((exporter0 0)\<lparr>ifaces := [''eth0'', ''eth1'']\<rparr>)) \<noteq> None"
    by (rule network_stats_all_or_nothing
        [of "(exporter0 0)\<lparr>ifaces := [''eth0'', ''eth1'']\<rparr>" "lib0 files0", unfolded if_P [OF a]])
  show ?thesis
    using b c files0_fails by blast
qed

section \<open>Properties of the renderer\<close>

lemma write_all_append: "write_all wr w (xs @ ys) = write_all wr (write_all wr w xs) ys"
  by (simp add: write_all_def)

lemma value_line_eq:
  "getMetricFullName L e m @ '' '' @ fmt_g L (m_value m) @ ''\<newline>'' = value_line L (hostname e) m"
  by (simp add: getMetricFullName_def value_line_def)

lemma write_metric_chunks:
  "write_metric L wr e w m = write_all wr w (metric_lines L (hostname e) m)"
  unfolding write_metric_def Let_def value_line_eq
  by (simp add: writeMetricMetadata_def Fprintln_def Fprint_def metric_lines_def write_all_def)

lemma write_metrics_chunks:
  "write_metrics L wr e w ms = write_all wr w (concat (map (metric_lines L (hostname e)) ms))"
  by (induction ms arbitrary: w) (simp_all add: write_metric_chunks write_all_append, simp add: write_all_def)

lemma write_all_line_writer: "write_all line_writer w chunks = w @ chunks"
  by (induction chunks arbitrary: w) (simp_all add: write_all_def line_writer_def)

text \<open>
  Claim C4. For every metric of a batch, in order, the renderer writes the line
  \<open># HELP name help\<close> exactly when the help is not empty, then the line
  \<open># TYPE name type\<close> exactly when the type is not empty, then the value line
  \<open>name{node=host[,attr]} value\<close>; every metric gets its own metadata lines, also
  when a name repeats.
\<close>

theorem render_metadata:
  "write_metrics L line_writer e w ms = w @ concat (map (metric_lines L (hostname e)) ms)"
  by (simp add: write_metrics_chunks write_all_line_writer)

text \<open>
  Two samples of the gauge \<open>up\<close> get the metadata lines twice; the bare metric gets
  its value line only.
\<close>

theorem render_metadata_witness:
  "write_metrics (lib0 files0) line_writer nas0 [] [gauge0 [] 1, gauge0 ''device=\"eth0\"'' 2, bare0]
     = [''# HELP up Up\<newline>'', ''# TYPE up gauge\<newline>'', ''up{node=\"nas\"} 1\<newline>'',
        ''# HELP up Up\<newline>'', ''# TYPE up gauge\<newline>'', ''up{node=\"nas\",device=\"eth0\"} 2\<newline>'',
        ''x{node=\"nas\"} 3\<newline>'']"
  using render_metadata [of "lib0 files0" nas0 "[]" "[gauge0 [] 1, gauge0 ''device=\"eth0\"'' 2, bare0]"]
  by (simp add: metric_lines_def value_line_def gauge0_def bare0_def nas0_def exporter0_def lib0_def
      show_nat.simps show_digit_def)

section \<open>Properties of the bandwidth producer\<close>













end
